theory Spec2Isabelle
  imports Complex_Main "HOL-Library.Sublist"
begin

section \<open>JavaScript numbers\<close>

text \<open>
  The ledger computes with the JavaScript type \<open>number\<close>. A finite number is modelled
  as an exact rational; the three special values of the type are kept, because the code
  tests for them (\<open>isNaN\<close>) and produces them (a division by zero does not raise).
  Rounding, overflow to infinity and the sign of zero are not modelled: a zero divisor is
  taken as positive zero.
\<close>

datatype number = NaN | NegInf | Fin rat | PosInf

fun isNaN :: "number \<Rightarrow> bool" where
  "isNaN NaN = True"
| "isNaN _ = False"


fun js_neg :: "number \<Rightarrow> number" where
  "js_neg NaN = NaN"
| "js_neg NegInf = PosInf"
| "js_neg (Fin a) = Fin (- a)"
| "js_neg PosInf = NegInf"

text \<open>\<open>a + b\<close>\<close>

fun js_add :: "number \<Rightarrow> number \<Rightarrow> number" where
  "js_add NaN _ = NaN"
| "js_add _ NaN = NaN"
| "js_add (Fin a) (Fin b) = Fin (a + b)"
| "js_add PosInf NegInf = NaN"
| "js_add NegInf PosInf = NaN"
| "js_add PosInf _ = PosInf"
| "js_add _ PosInf = PosInf"
| "js_add NegInf _ = NegInf"
| "js_add _ NegInf = NegInf"

text \<open>\<open>a - b\<close>\<close>

definition js_sub :: "number \<Rightarrow> number \<Rightarrow> number" where
  "js_sub a b = js_add a (js_neg b)"

text \<open>The sign of a number that is not NaN: \<open>-1\<close>, \<open>0\<close> or \<open>1\<close>.\<close>

fun js_sign :: "number \<Rightarrow> int" where
  "js_sign NaN = 0"
| "js_sign NegInf = - 1"
| "js_sign (Fin a) = (if a < 0 then - 1 else if a = 0 then 0 else 1)"
| "js_sign PosInf = 1"

definition signed_inf :: "int \<Rightarrow> number" where
  "signed_inf s = (if s < 0 then NegInf else PosInf)"

text \<open>\<open>a * b\<close>: infinity times zero is NaN.\<close>

fun js_mul :: "number \<Rightarrow> number \<Rightarrow> number" where
  "js_mul NaN _ = NaN"
| "js_mul _ NaN = NaN"
| "js_mul (Fin a) (Fin b) = Fin (a * b)"
| "js_mul a b =
     (if js_sign a * js_sign b = 0 then NaN else signed_inf (js_sign a * js_sign b))"

text \<open>
  \<open>a / b\<close>: zero by zero and infinity by infinity are NaN, another finite number by
  zero is an infinity of its sign, a finite number by an infinity is zero.
\<close>

fun js_div :: "number \<Rightarrow> number \<Rightarrow> number" where
  "js_div NaN _ = NaN"
| "js_div _ NaN = NaN"
| "js_div (Fin a) (Fin b) =
     (if b = 0 then (if a = 0 then NaN else signed_inf (js_sign (Fin a)))
      else Fin (a / b))"
| "js_div (Fin a) _ = Fin 0"
| "js_div a (Fin b) = signed_inf (js_sign a * (if b < 0 then - 1 else 1))"
| "js_div _ _ = NaN"

text \<open>\<open>a < b\<close>, false as soon as one side is NaN.\<close>

fun js_lt :: "number \<Rightarrow> number \<Rightarrow> bool" where
  "js_lt NaN _ = False"
| "js_lt _ NaN = False"
| "js_lt (Fin a) (Fin b) = (a < b)"
| "js_lt NegInf NegInf = False"
| "js_lt NegInf _ = True"
| "js_lt _ NegInf = False"
| "js_lt PosInf _ = False"
| "js_lt _ PosInf = True"


text \<open>\<open>Math.max(a, b)\<close>: NaN as soon as one argument is NaN.\<close>

definition Math_max :: "number \<Rightarrow> number \<Rightarrow> number" where
  "Math_max a b = (if isNaN a \<or> isNaN b then NaN else if js_lt a b then b else a)"

section \<open>The data model (types.ts)\<close>

datatype TransactionType = BUY | SELL

record Transaction =
  tx_id :: string
  tx_type :: TransactionType
  tx_shares :: number
  tx_price :: number
  tx_date :: string

text \<open>The fields marked \<open>?\<close> in the interface are optional: \<open>None\<close> is \<open>undefined\<close>.\<close>

record StockPosition =
  stock_id :: string
  symbol :: string
  shares :: number
  avgBuyPrice :: number
  currentPrice :: "number option"
  companyName :: "string option"
  sector :: "string option"
  transactions :: "Transaction list option"

section \<open>The state container and its handlers (App.tsx)\<close>

text \<open>
  The part of the component state that the handlers below read and write.
  \<open>portfolioRef\<close> is the mutable reference that an effect synchronises with
  \<open>portfolio\<close> after each render.
\<close>

record AppState =
  portfolio :: "StockPosition list"
  liquidCash :: number
  portfolioRef :: "StockPosition list"
  isRefreshing :: bool

text \<open>
  \<open>updatedTransactions.sort((a, b) => new Date(b.date).getTime() - new Date(a.date).getTime())\<close>:
  a stable sort, newest first. The parsing of a date string to its time stamp is the
  parameter \<open>getTime\<close>.
\<close>

definition sortTransactions :: "(string \<Rightarrow> int) \<Rightarrow> Transaction list \<Rightarrow> Transaction list" where
  "sortTransactions getTime ts = sort_key (\<lambda>t. - getTime (tx_date t)) ts"

text \<open>The callback that \<open>handleTransaction\<close> maps over the portfolio.\<close>

definition updateStock ::
  "(string \<Rightarrow> int) \<Rightarrow> string \<Rightarrow> Transaction \<Rightarrow> StockPosition \<Rightarrow> StockPosition" where
  "updateStock getTime stockId transaction stock =
     (if stock_id stock \<noteq> stockId then stock
      else
        let (newShares, newAvgPrice) =
              (case tx_type transaction of
                 BUY \<Rightarrow>
                   let totalCost = js_add (js_mul (shares stock) (avgBuyPrice stock))
                                          (js_mul (tx_shares transaction) (tx_price transaction));
                       newShares = js_add (shares stock) (tx_shares transaction)
                   in (newShares, js_div totalCost newShares)
               | SELL \<Rightarrow>
                   let newShares = Math_max (Fin 0) (js_sub (shares stock) (tx_shares transaction))
                   in (newShares, if newShares = Fin 0 then Fin 0 else avgBuyPrice stock));
            updatedTransactions =
              sortTransactions getTime
                (case transactions stock of
                   Some ts \<Rightarrow> ts @ [transaction]
                 | None \<Rightarrow> [transaction])
        in stock\<lparr>shares := newShares, avgBuyPrice := newAvgPrice,
                 transactions := Some updatedTransactions\<rparr>)"

definition handleTransaction ::
  "(string \<Rightarrow> int) \<Rightarrow> string \<Rightarrow> Transaction \<Rightarrow> AppState \<Rightarrow> AppState" where
  "handleTransaction getTime stockId transaction st =
     (let amount = js_mul (tx_shares transaction) (tx_price transaction)
      in st\<lparr>portfolio := map (updateStock getTime stockId transaction) (portfolio st),
             liquidCash :=
               (if tx_type transaction = BUY
                then Math_max (Fin 0) (js_sub (liquidCash st) amount)
                else js_add (liquidCash st) amount)\<rparr>)"

text \<open>
  \<open>String.prototype.toUpperCase\<close>, on the ASCII letters (ticker symbols are ASCII; a
  character is a byte here).
\<close>

definition upperChar :: "char \<Rightarrow> char" where
  "upperChar c =
     (case map_of (zip ''abcdefghijklmnopqrstuvwxyz'' ''ABCDEFGHIJKLMNOPQRSTUVWXYZ'') c of
        Some u \<Rightarrow> u
      | None \<Rightarrow> c)"

definition toUpperCase :: "string \<Rightarrow> string" where
  "toUpperCase s = map upperChar s"

text \<open>\<open>Array.prototype.findIndex\<close>; \<open>None\<close> is the result \<open>-1\<close>.\<close>

fun findIndex :: "('a \<Rightarrow> bool) \<Rightarrow> 'a list \<Rightarrow> nat option" where
  "findIndex P [] = None"
| "findIndex P (x # xs) =
     (if P x then Some 0 else (case findIndex P xs of None \<Rightarrow> None | Some i \<Rightarrow> Some (Suc i)))"

text \<open>
  \<open>handleAddStock\<close>. \<open>now\<close> and \<open>nowIso\<close> are the values of \<open>Date.now().toString()\<close>
  and \<open>new Date().toISOString()\<close> at the call. The price refresh that the handler
  schedules afterwards is modelled on its own below.
\<close>

definition handleAddStock :: "string \<Rightarrow> string \<Rightarrow> StockPosition \<Rightarrow> AppState \<Rightarrow> AppState" where
  "handleAddStock now nowIso stock st =
     (let initialTransaction =
            \<lparr>tx_id = now, tx_type = BUY, tx_shares = shares stock,
             tx_price = avgBuyPrice stock, tx_date = nowIso\<rparr>;
          prev = portfolio st
      in st\<lparr>portfolio :=
           (case findIndex (\<lambda>p. toUpperCase (symbol p) = toUpperCase (symbol stock)) prev of
              Some existingIndex \<Rightarrow>
                let existing = prev ! existingIndex;
                    totalCost = js_add (js_mul (shares existing) (avgBuyPrice existing))
                                       (js_mul (shares stock) (avgBuyPrice stock));
                    totalShares = js_add (shares existing) (shares stock);
                    newAvg = js_div totalCost totalShares;
                    updatedStock =
                      existing\<lparr>shares := totalShares, avgBuyPrice := newAvg,
                               transactions :=
                                 Some (initialTransaction #
                                   (case transactions existing of Some ts \<Rightarrow> ts | None \<Rightarrow> []))\<rparr>
                in prev[existingIndex := updatedStock]
            | None \<Rightarrow> prev @ [stock\<lparr>transactions := Some [initialTransaction]\<rparr>])\<rparr>)"

text \<open>
  A purchase reaches a position either as a BUY through \<open>handleTransaction\<close> or as a
  merge through \<open>handleAddStock\<close>.
\<close>

datatype Action =
  Transact string Transaction
| AddStock string string StockPosition



text \<open>The quantity and the price that an action buys.\<close>

fun boughtShares :: "Action \<Rightarrow> number" where
  "boughtShares (Transact _ t) = tx_shares t"
| "boughtShares (AddStock _ _ s) = shares s"

fun boughtPrice :: "Action \<Rightarrow> number" where
  "boughtPrice (Transact _ t) = tx_price t"
| "boughtPrice (AddStock _ _ s) = avgBuyPrice s"


text \<open>The value of a finite number.\<close>

fun the_fin :: "number \<Rightarrow> rat" where
  "the_fin (Fin a) = a"
| "the_fin _ = 0"

definition totalShares :: "Action list \<Rightarrow> rat" where
  "totalShares acts = sum_list (map (\<lambda>a. the_fin (boughtShares a)) acts)"

definition totalCost :: "Action list \<Rightarrow> rat" where
  "totalCost acts = sum_list (map (\<lambda>a. the_fin (boughtShares a) * the_fin (boughtPrice a)) acts)"


subsection \<open>A sample ledger\<close>

definition hbl :: StockPosition where
  "hbl = \<lparr>stock_id = ''1'', symbol = ''HBL'', shares = Fin 10, avgBuyPrice = Fin 100,
           currentPrice = None, companyName = None, sector = None, transactions = None\<rparr>"

definition ledger :: AppState where
  "ledger = \<lparr>portfolio = [hbl], liquidCash = Fin 500, portfolioRef = [hbl],
              isRefreshing = False\<rparr>"

definition buy10 :: Transaction where
  "buy10 = \<lparr>tx_id = ''t1'', tx_type = BUY, tx_shares = Fin 10, tx_price = Fin 200,
             tx_date = ''2024-01-02''\<rparr>"

definition sell10 :: Transaction where
  "sell10 = \<lparr>tx_id = ''t2'', tx_type = SELL, tx_shares = Fin 10, tx_price = Fin 120,
              tx_date = ''2024-01-03''\<rparr>"


definition ogdc :: StockPosition where
  "ogdc = \<lparr>stock_id = ''3'', symbol = ''OGDC'', shares = Fin 5, avgBuyPrice = Fin 80,
            currentPrice = Some (Fin 80), companyName = None, sector = None,
            transactions = Some []\<rparr>"

text \<open>A stand-in for the parsing of dates: the length of the string.\<close>

definition sampleTime :: "string \<Rightarrow> int" where
  "sampleTime s = int (length s)"

section \<open>The AI-call wrapper (services/geminiService.ts)\<close>

subsection \<open>Strings\<close>

text \<open>\<open>s.includes(sub)\<close>\<close>

fun includes_str :: "string \<Rightarrow> string \<Rightarrow> bool" where
  "includes_str [] sub = (sub = [])"
| "includes_str (c # cs) sub = (prefix sub (c # cs) \<or> includes_str cs sub)"

text \<open>
  \<open>s.replace(/pat/g, "")\<close> for a literal, non-empty pattern: every match is removed,
  from left to right, and the search goes on after the match.
\<close>

fun stripAll :: "string \<Rightarrow> string \<Rightarrow> string" where
  "stripAll pat [] = []"
| "stripAll pat (c # cs) =
     (if pat \<noteq> [] \<and> prefix pat (c # cs) then stripAll pat (drop (length pat - 1) cs)
      else c # stripAll pat cs)"

text \<open>The white space that \<open>trim\<close> removes, among the ASCII characters.\<close>

definition isSpace :: "char \<Rightarrow> bool" where
  "isSpace c = (c \<in> set [CHR '' '', CHR 0x09, CHR 0x0A, CHR 0x0B, CHR 0x0C, CHR 0x0D])"

definition trim :: "string \<Rightarrow> string" where
  "trim s = rev (dropWhile isSpace (rev (dropWhile isSpace s)))"

text \<open>\<open>s.indexOf(c)\<close> and \<open>s.lastIndexOf(c)\<close>; \<open>None\<close> is the result \<open>-1\<close>.\<close>

definition indexOf :: "string \<Rightarrow> char \<Rightarrow> nat option" where
  "indexOf s c = findIndex (\<lambda>x. x = c) s"

definition lastIndexOf :: "string \<Rightarrow> char \<Rightarrow> nat option" where
  "lastIndexOf s c =
     (case findIndex (\<lambda>x. x = c) (rev s) of
        None \<Rightarrow> None
      | Some j \<Rightarrow> Some (length s - 1 - j))"

text \<open>
  \<open>s.substring(a, b)\<close>: the two indices are swapped when \<open>a > b\<close>, and both are
  clamped to the length of the string.
\<close>

definition substring :: "string \<Rightarrow> nat \<Rightarrow> nat \<Rightarrow> string" where
  "substring s a b = take (max a b - min a b) (drop (min a b) s)"

subsection \<open>Responses and errors\<close>

record Source =
  title :: string
  uri :: string

text \<open>A grounding chunk, with its optional \<open>web\<close> citation.\<close>

record GroundingChunk =
  web :: "Source option"

text \<open>
  What the wrapper and its callers read of a response: its text, and the grounding
  chunks of the first candidate (\<open>[]\<close> when a link of the optional chain is missing).
\<close>

record Response =
  text_of :: "string option"
  groundingChunks :: "GroundingChunk list"

text \<open>A thrown value, with the two properties that the wrapper inspects.\<close>

record ApiError =
  status :: "int option"
  message :: "string option"

text \<open>The outcome of one call of \<open>ai.models.generateContent\<close>.\<close>

datatype CallResult = Throws ApiError | Returns Response

definition invalidJson :: ApiError where
  "invalidJson = \<lparr>status = None, message = Some ''Invalid JSON format received from AI''\<rparr>"

definition noApiKey :: ApiError where
  "noApiKey = \<lparr>status = None, message = Some ''API Key not found''\<rparr>"

definition retriesFailed :: ApiError where
  "retriesFailed =
     \<lparr>status = None, message = Some ''Gemini API request failed after multiple retries''\<rparr>"

subsection \<open>One attempt\<close>

text \<open>
  The clean-up of the response text: the code-fence markers are removed, the text is
  trimmed, and when it has both a \<open>{\<close> and a \<open>}\<close> the substring from the first
  \<open>{\<close> to the last \<open>}\<close> is kept.
\<close>

definition stripFences :: "string \<Rightarrow> string" where
  "stripFences raw = stripAll ''```'' (stripAll ''```json'' raw)"

definition extractJson :: "string \<Rightarrow> string" where
  "extractJson raw =
     (let t = trim (stripFences raw)
      in case (indexOf t CHR ''{'', lastIndexOf t CHR ''}'') of
           (Some firstBrace, Some lastBrace) \<Rightarrow> substring t firstBrace (lastBrace + 1)
         | _ \<Rightarrow> t)"

text \<open>\<open>response.text || "{}"\<close>: a missing and an empty text are both falsy.\<close>

definition responseText :: "Response \<Rightarrow> string" where
  "responseText r = (case text_of r of None \<Rightarrow> ''{}'' | Some s \<Rightarrow> if s = [] then ''{}'' else s)"

text \<open>
  The body of the \<open>try\<close> block. \<open>JSON.parse\<close> is the parameter \<open>parse\<close>, \<open>None\<close>
  when it throws. The result is the thrown value or the pair that is returned.
\<close>

definition attempt ::
  "(string \<Rightarrow> 'd option) \<Rightarrow> CallResult \<Rightarrow> ApiError + ('d \<times> Response)" where
  "attempt parse c =
     (case c of
        Throws e \<Rightarrow> Inl e
      | Returns r \<Rightarrow>
          (case parse (extractJson (responseText r)) of
             None \<Rightarrow> Inl invalidJson
           | Some d \<Rightarrow> Inr (d, r)))"

subsection \<open>The retry loop\<close>

definition isRateLimit :: "ApiError \<Rightarrow> bool" where
  "isRateLimit e =
     (status e = Some 429 \<or>
      (case message e of
         None \<Rightarrow> False
       | Some m \<Rightarrow> includes_str m ''429'' \<or> includes_str m ''quota'' \<or> includes_str m ''RESOURCE_EXHAUSTED''))"

definition maxAttempts :: nat where
  "maxAttempts = 3"

text \<open>
  What a run of the wrapper does: the value it returns or throws, the number of calls
  of \<open>generateContent\<close> it made, and the delays it waited, in milliseconds and in order.
\<close>

record 'd Run =
  outcome :: "ApiError + ('d \<times> Response)"
  calls :: nat
  waits :: "nat list"

text \<open>
  The \<open>while\<close> loop. The remote service is the function \<open>ai\<close> from the number of a
  call to its outcome; the loop starts at call \<open>n\<close> and makes one call per iteration.
\<close>

function fetchLoop ::
  "(string \<Rightarrow> 'd option) \<Rightarrow> (nat \<Rightarrow> CallResult) \<Rightarrow> nat \<Rightarrow> nat \<Rightarrow> 'd Run" where
  "fetchLoop parse ai n attempts =
     (if attempts < maxAttempts then
        (case attempt parse (ai (n + attempts)) of
           Inr res \<Rightarrow> \<lparr>outcome = Inr res, calls = attempts + 1, waits = []\<rparr>
         | Inl error \<Rightarrow>
             (if isRateLimit error \<and> attempts + 1 < maxAttempts then
                (let r = fetchLoop parse ai n (attempts + 1)
                 in r\<lparr>waits := 3000 * (attempts + 1) # waits r\<rparr>)
              else if attempts + 1 = maxAttempts then
                \<lparr>outcome = Inl error, calls = attempts + 1, waits = []\<rparr>
              else fetchLoop parse ai n (attempts + 1)))
      else \<lparr>outcome = Inl retriesFailed, calls = attempts, waits = []\<rparr>)"
  by pat_completeness auto
termination
  by (relation "measure (\<lambda>(parse, ai, n, attempts). maxAttempts - attempts)") auto

text \<open>
  \<open>getAiClient\<close> throws when the environment has no API key (\<open>undefined\<close> or the
  empty string), before the loop starts.
\<close>

definition hasApiKey :: "string option \<Rightarrow> bool" where
  "hasApiKey apiKey = (apiKey \<noteq> None \<and> apiKey \<noteq> Some [])"

definition fetchGeminiResponse ::
  "string option \<Rightarrow> (string \<Rightarrow> 'd option) \<Rightarrow> (nat \<Rightarrow> CallResult) \<Rightarrow> nat \<Rightarrow> 'd Run" where
  "fetchGeminiResponse apiKey parse ai n =
     (if \<not> hasApiKey apiKey then \<lparr>outcome = Inl noApiKey, calls = 0, waits = []\<rparr>
      else fetchLoop parse ai n 0)"

text \<open>Whether an attempt failed with a rate-limit or quota signal.\<close>

definition rateLimited :: "ApiError + 'a \<Rightarrow> bool" where
  "rateLimited x = (case x of Inl e \<Rightarrow> isRateLimit e | Inr _ \<Rightarrow> False)"

subsection \<open>The two-phase analysis\<close>

text \<open>\<open>Map.prototype.set\<close> on a map kept as a list of entries in insertion order.\<close>

fun mapSet :: "'k \<Rightarrow> 'v \<Rightarrow> ('k \<times> 'v) list \<Rightarrow> ('k \<times> 'v) list" where
  "mapSet k v [] = [(k, v)]"
| "mapSet k v (e # es) = (if fst e = k then (k, v) # es else e # mapSet k v es)"

text \<open>\<open>extractSources\<close>: the citations of the chunks that have one are appended.\<close>

definition extractSources :: "Response \<Rightarrow> Source list \<Rightarrow> Source list" where
  "extractSources response allSources =
     allSources @ map (\<lambda>c. the (web c)) (filter (\<lambda>c. web c \<noteq> None) (groundingChunks response))"

text \<open>\<open>Array.from(new Map(allSources.map(item => [item.uri, item])).values())\<close>\<close>

definition uniqueSources :: "Source list \<Rightarrow> Source list" where
  "uniqueSources allSources = map snd (foldl (\<lambda>m item. mapSet (uri item) item m) [] allSources)"

text \<open>
  An analysis result is a bag of optional fields: a map from the name of a field to its
  value, a parsed value or the list of sources.
\<close>

datatype 'v Field = Json 'v | Sources "Source list"

type_synonym 'v AnalysisResult = "string \<rightharpoonup> 'v Field"

text \<open>
  \<open>{ ...currentResult, ...data, sources: s }\<close>. The own properties of the parsed data
  are given by the parameter \<open>spread\<close>.
\<close>

definition mergeResult ::
  "('d \<Rightarrow> string \<rightharpoonup> 'v) \<Rightarrow> 'v AnalysisResult \<Rightarrow> 'd \<Rightarrow> Source list \<Rightarrow> 'v AnalysisResult" where
  "mergeResult spread currentResult data s =
     (currentResult ++ (\<lambda>k. map_option Json (spread data k)))(''sources'' \<mapsto> Sources s)"

text \<open>
  What \<open>generatePortfolioAnalysis\<close> does: the partial results it passes to \<open>onUpdate\<close>,
  in order, its last \<open>currentResult\<close>, and the two runs of the wrapper.
\<close>

record ('d, 'v) Analysis =
  updates :: "'v AnalysisResult list"
  currentResult :: "'v AnalysisResult"
  phase1 :: "'d Run"
  phase2 :: "'d Run"

definition generatePortfolioAnalysis ::
  "string option \<Rightarrow> (string \<Rightarrow> 'd option) \<Rightarrow> ('d \<Rightarrow> string \<rightharpoonup> 'v) \<Rightarrow> (nat \<Rightarrow> CallResult) \<Rightarrow>
   ('d, 'v) Analysis" where
  "generatePortfolioAnalysis apiKey parse spread ai =
     (let p1 = fetchGeminiResponse apiKey parse ai 0;
          (result1, sources1, updates1) =
            (case outcome p1 of
               Inr (data, response) \<Rightarrow>
                 let allSources = extractSources response [];
                     r = mergeResult spread Map.empty data allSources
                 in (r, allSources, [r])
             | Inl e \<Rightarrow> (Map.empty, [], []));
          p2 = fetchGeminiResponse apiKey parse ai (calls p1);
          (result2, updates2) =
            (case outcome p2 of
               Inr (data, response) \<Rightarrow>
                 let allSources = extractSources response sources1;
                     r = mergeResult spread result1 data (uniqueSources allSources)
                 in (r, updates1 @ [r])
             | Inl e \<Rightarrow> (result1, updates1))
      in \<lparr>updates = updates2, currentResult = result2, phase1 = p1, phase2 = p2\<rparr>)"

subsection \<open>Sample services\<close>

text \<open>A stand-in for \<open>JSON.parse\<close> that accepts any text from a \<open>{\<close> to a \<open>}\<close>.\<close>

definition bracedText :: "string \<Rightarrow> string option" where
  "bracedText s = (if s \<noteq> [] \<and> hd s = CHR ''{'' \<and> last s = CHR ''}'' then Some s else None)"

definition summaryOnly :: "string \<Rightarrow> string \<rightharpoonup> string" where
  "summaryOnly d = [''summary'' \<mapsto> d]"

definition serverError :: ApiError where
  "serverError = \<lparr>status = Some 500, message = Some ''Internal error''\<rparr>"

definition tooManyRequests :: ApiError where
  "tooManyRequests = \<lparr>status = Some 429, message = Some ''Too Many Requests''\<rparr>"

definition emptyObject :: Response where
  "emptyObject = \<lparr>text_of = Some ''{}'', groundingChunks = []\<rparr>"

definition fencedAnswer :: Response where
  "fencedAnswer =
     \<lparr>text_of = Some ''Here is the analysis: ```json {x} ``` I hope it helps.'',
      groundingChunks = [\<lparr>web = Some \<lparr>title = ''PSX'', uri = ''https://psx''\<rparr>\<rparr>, \<lparr>web = None\<rparr>]\<rparr>"

text \<open>A service that fails once with a server error, then answers.\<close>

definition flaky :: "nat \<Rightarrow> CallResult" where
  "flaky k = (if k = 0 then Throws serverError else Returns emptyObject)"

text \<open>A service that is rate-limited twice, then answers.\<close>

definition busy :: "nat \<Rightarrow> CallResult" where
  "busy k = (if k < 2 then Throws tooManyRequests else Returns emptyObject)"

text \<open>A service that answers the first call and fails from then on.\<close>

definition failsLater :: "nat \<Rightarrow> CallResult" where
  "failsLater k = (if k = 0 then Returns fencedAnswer else Throws serverError)"

text \<open>A service that fails three times, then answers.\<close>

definition failsFirst :: "nat \<Rightarrow> CallResult" where
  "failsFirst k = (if k < 3 then Throws serverError else Returns fencedAnswer)"

section \<open>Refreshing the prices (App.tsx)\<close>

text \<open>
  The effect that runs after a render in which \<open>portfolio\<close> changed:
  \<open>portfolioRef.current = portfolio\<close>.
\<close>

definition commitEffects :: "AppState \<Rightarrow> AppState" where
  "commitEffects st = st\<lparr>portfolioRef := portfolio st\<rparr>"

text \<open>
  \<open>handleReset\<close>, on the fields of this state; \<open>confirmed\<close> is the answer to
  \<open>window.confirm\<close>.
\<close>

definition handleReset :: "bool \<Rightarrow> AppState \<Rightarrow> AppState" where
  "handleReset confirmed st =
     (if confirmed then st\<lparr>portfolio := [], liquidCash := Fin 0\<rparr> else st)"


text \<open>
  \<open>handleRefreshPrices\<close> runs in two parts, before and after its \<open>await\<close>. The first
  part reads the reference and, unless the portfolio is empty, sends the request: the
  result is the new state and the portfolio passed to \<open>updateStockPrices\<close>.
\<close>

definition refreshRequest :: "AppState \<Rightarrow> AppState \<times> StockPosition list option" where
  "refreshRequest st =
     (if portfolioRef st = [] then (st, None)
      else (st\<lparr>isRefreshing := True\<rparr>, Some (portfolioRef st)))"

text \<open>
  The second part runs when the request settles, in whatever state the component then
  is: \<open>Inr\<close> carries the portfolio that \<open>updateStockPrices\<close> resolved to, \<open>Inl\<close> is a
  rejection. The \<open>finally\<close> block runs on every path.
\<close>

definition refreshComplete :: "unit + StockPosition list \<Rightarrow> AppState \<Rightarrow> AppState" where
  "refreshComplete settled st =
     (case settled of
        Inr updatedPortfolio \<Rightarrow>
          (if portfolioRef st = [] then st\<lparr>isRefreshing := False\<rparr>
           else st\<lparr>portfolio := updatedPortfolio, isRefreshing := False\<rparr>)
      | Inl _ \<Rightarrow> st\<lparr>isRefreshing := False\<rparr>)"

section \<open>The spreadsheet import (PortfolioView)\<close>














subsection \<open>The invariant of the aggregation\<close>



subsection \<open>A sample sheet\<close>






section \<open>Properties of the handlers\<close>

subsection \<open>Searching the portfolio\<close>



subsection \<open>Purchases\<close>








subsection \<open>Sales\<close>

lemma Math_max_not_lt: "\<not> js_lt (Math_max (Fin 0) x) (Fin 0)"
  by (cases x) (auto simp: Math_max_def)

lemma updateStock_sell:
  "tx_type t = SELL \<Longrightarrow> stock_id p = sid \<Longrightarrow>
   shares (updateStock g sid t p) = Math_max (Fin 0) (js_sub (shares p) (tx_shares t)) \<and>
   avgBuyPrice (updateStock g sid t p) =
     (if Math_max (Fin 0) (js_sub (shares p) (tx_shares t)) = Fin 0 then Fin 0
      else avgBuyPrice p)"
  by (simp add: updateStock_def Let_def)

text \<open>
  Claim C2. A SELL through the transaction handler leaves the position it is applied to
  with the maximum of zero and its shares minus the shares sold, which is never below
  zero, and with average cost zero whenever that share count is exactly zero.
\<close>

theorem sell_never_below_zero:
  assumes "tx_type t = SELL" and "i < length (portfolio st)"
    and "stock_id (portfolio st ! i) = stockId"
  shows "let p = portfolio st ! i;
             p' = portfolio (handleTransaction getTime stockId t st) ! i
         in shares p' = Math_max (Fin 0) (js_sub (shares p) (tx_shares t)) \<and>
            \<not> js_lt (shares p') (Fin 0) \<and>
            (shares p' = Fin 0 \<longrightarrow> avgBuyPrice p' = Fin 0)"
  using assms
  by (simp add: handleTransaction_def Let_def updateStock_sell Math_max_not_lt)

theorem sell_never_below_zero_witness:
  "tx_type sell10 = SELL \<and> 0 < length (portfolio ledger) \<and>
   stock_id (portfolio ledger ! 0) = ''1'' \<and>
   shares (portfolio (handleTransaction sampleTime ''1'' sell10 ledger) ! 0) = Fin 0 \<and>
   avgBuyPrice (portfolio (handleTransaction sampleTime ''1'' sell10 ledger) ! 0) = Fin 0"
  using sell_never_below_zero [of sell10 0 ledger "''1''" sampleTime]
  by (simp add: sell10_def ledger_def hbl_def Let_def Math_max_def js_sub_def)

subsection \<open>Liquid cash\<close>

lemma js_lt_sub_max:
  "js_lt a b \<Longrightarrow> Math_max (Fin 0) (js_sub a b) = Fin 0"
  by (cases a; cases b) (auto simp: Math_max_def js_sub_def)

text \<open>
  Claim C10. A BUY through the transaction handler sets the liquid cash to the maximum of
  zero and the balance minus shares times price: it is never negative, and it is zero
  when the cost exceeds the balance. A SELL adds shares times price to the balance.
\<close>

theorem cash_after_transaction:
  "(tx_type t = BUY \<longrightarrow>
      liquidCash (handleTransaction getTime stockId t st) =
        Math_max (Fin 0) (js_sub (liquidCash st) (js_mul (tx_shares t) (tx_price t))) \<and>
      \<not> js_lt (liquidCash (handleTransaction getTime stockId t st)) (Fin 0) \<and>
      (js_lt (liquidCash st) (js_mul (tx_shares t) (tx_price t)) \<longrightarrow>
         liquidCash (handleTransaction getTime stockId t st) = Fin 0)) \<and>
   (tx_type t = SELL \<longrightarrow>
      liquidCash (handleTransaction getTime stockId t st) =
        js_add (liquidCash st) (js_mul (tx_shares t) (tx_price t)))"
  by (simp add: handleTransaction_def Let_def Math_max_not_lt js_lt_sub_max)

theorem cash_after_transaction_witness:
  "tx_type buy10 = BUY \<and>
   js_lt (liquidCash ledger) (js_mul (tx_shares buy10) (tx_price buy10)) \<and>
   liquidCash (handleTransaction sampleTime ''1'' buy10 ledger) = Fin 0 \<and>
   tx_type sell10 = SELL \<and>
   liquidCash (handleTransaction sampleTime ''1'' sell10 ledger) = Fin 1700"
  using cash_after_transaction [of buy10 sampleTime "''1''" ledger]
    cash_after_transaction [of sell10 sampleTime "''1''" ledger]
  by (simp add: buy10_def sell10_def ledger_def Math_max_def js_sub_def)

section \<open>Properties of the AI-call wrapper\<close>

subsection \<open>Cleaning the response text\<close>











subsection \<open>The three iterations of the loop\<close>

declare fetchLoop.simps [simp del]

lemma fetchLoop_2:
  "fetchLoop parse ai n (Suc (Suc 0)) =
     (case attempt parse (ai (n + 2)) of
        Inr res \<Rightarrow> \<lparr>outcome = Inr res, calls = 3, waits = []\<rparr>
      | Inl e \<Rightarrow> \<lparr>outcome = Inl e, calls = 3, waits = []\<rparr>)"
  by (subst fetchLoop.simps) (simp add: maxAttempts_def split: sum.splits)

lemma fetchLoop_1:
  "fetchLoop parse ai n (Suc 0) =
     (case attempt parse (ai (n + 1)) of
        Inr res \<Rightarrow> \<lparr>outcome = Inr res, calls = 2, waits = []\<rparr>
      | Inl e \<Rightarrow>
          (let r = fetchLoop parse ai n (Suc (Suc 0))
           in if isRateLimit e then r\<lparr>waits := 6000 # waits r\<rparr> else r))"
  by (subst fetchLoop.simps) (simp add: maxAttempts_def Let_def split: sum.splits)

lemma fetchLoop_0:
  "fetchLoop parse ai n 0 =
     (case attempt parse (ai n) of
        Inr res \<Rightarrow> \<lparr>outcome = Inr res, calls = 1, waits = []\<rparr>
      | Inl e \<Rightarrow>
          (let r = fetchLoop parse ai n (Suc 0)
           in if isRateLimit e then r\<lparr>waits := 3000 # waits r\<rparr> else r))"
  by (subst fetchLoop.simps) (simp add: maxAttempts_def Let_def split: sum.splits)

lemmas fetchLoop_unfold = fetchLoop_0 fetchLoop_1 fetchLoop_2

lemma all_less_2: "(\<forall>j<2. P j) \<longleftrightarrow> P 0 \<and> P (Suc 0)" for P :: "nat \<Rightarrow> bool"
  by (auto simp: less_2_cases_iff)

lemma less_3_cases: "k < 3 \<longleftrightarrow> k = 0 \<or> k = 1 \<or> k = 2" for k :: nat
  by auto

subsection \<open>Sample runs\<close>

lemmas sample_run_defs =
  fetchGeminiResponse_def hasApiKey_def fetchLoop_unfold attempt_def responseText_def
  extractJson_def stripFences_def trim_def isSpace_def indexOf_def lastIndexOf_def substring_def
  bracedText_def isRateLimit_def serverError_def tooManyRequests_def emptyObject_def
  fencedAnswer_def

lemma run_flaky:
  "fetchGeminiResponse (Some ''key'') bracedText flaky 0 =
     \<lparr>outcome = Inr (''{}'', emptyObject), calls = 2, waits = []\<rparr>"
  by (simp add: sample_run_defs flaky_def)

lemma run_busy:
  "fetchGeminiResponse (Some ''key'') bracedText busy 0 =
     \<lparr>outcome = Inr (''{}'', emptyObject), calls = 3, waits = [3000, 6000]\<rparr>"
  by (simp add: sample_run_defs busy_def)

lemma run_without_key:
  "fetchGeminiResponse None bracedText ai 0 = \<lparr>outcome = Inl noApiKey, calls = 0, waits = []\<rparr>"
  by (simp add: fetchGeminiResponse_def hasApiKey_def)

subsection \<open>Attempts\<close>

text \<open>
  Claim C3, as stated, fails: without an API key the wrapper throws before it has made
  any attempt.
\<close>

theorem throws_before_first_attempt:
  "outcome (fetchGeminiResponse None bracedText flaky 0) = Inl noApiKey \<and>
   calls (fetchGeminiResponse None bracedText flaky 0) = 0"
  by (simp add: run_without_key)

text \<open>
  Claim C3, amended. Without an API key the wrapper throws at once, with no attempt.
  With one, it makes between one and three attempts; it throws only the error of the
  third attempt, after all three have failed; and the first attempt that succeeds is the
  last one made, its parsed result being returned.
\<close>

theorem attempts_at_most_three:
  "let r = fetchGeminiResponse apiKey parse ai n;
       a = (\<lambda>j. attempt parse (ai (n + j)))
   in (\<not> hasApiKey apiKey \<longrightarrow> outcome r = Inl noApiKey \<and> calls r = 0) \<and>
      (hasApiKey apiKey \<longrightarrow>
         1 \<le> calls r \<and> calls r \<le> 3 \<and>
         (\<forall>e. outcome r = Inl e \<longrightarrow>
                calls r = 3 \<and> a 2 = Inl e \<and> isl (a 0) \<and> isl (a 1)) \<and>
         (\<forall>k res. k < 3 \<and> a k = Inr res \<and> (\<forall>j<k. isl (a j)) \<longrightarrow>
                outcome r = Inr res \<and> calls r = k + 1))"
proof (cases "hasApiKey apiKey")
  case False
  then show ?thesis by (simp add: fetchGeminiResponse_def Let_def)
next
  case True
  then show ?thesis
    apply (simp add: fetchGeminiResponse_def Let_def fetchLoop_unfold less_3_cases)
    apply (cases "attempt parse (ai n)"; cases "attempt parse (ai (n + 1))";
        cases "attempt parse (ai (n + 2))")
           apply (auto simp: Let_def fetchLoop_unfold all_less_2)
    done
qed

theorem attempts_at_most_three_witness:
  "\<not> hasApiKey None \<and>
   calls (fetchGeminiResponse None bracedText flaky 0) = 0 \<and>
   hasApiKey (Some ''key'') \<and>
   isl (attempt bracedText (flaky 0)) \<and>
   attempt bracedText (flaky 1) = Inr (''{}'', emptyObject) \<and>
   outcome (fetchGeminiResponse (Some ''key'') bracedText flaky 0) = Inr (''{}'', emptyObject) \<and>
   calls (fetchGeminiResponse (Some ''key'') bracedText flaky 0) = 2"
proof -
  let ?r = "fetchGeminiResponse (Some ''key'') bracedText flaky 0"
  let ?a = "\<lambda>j. attempt bracedText (flaky (0 + j))"
  have k: "hasApiKey (Some ''key'')" and nk: "\<not> hasApiKey None"
    by (simp_all add: hasApiKey_def)
  have a0: "isl (?a 0)"
    by (simp add: flaky_def attempt_def)
  have a1: "?a 1 = Inr (''{}'', emptyObject)"
    by (simp add: sample_run_defs flaky_def)
  from attempts_at_most_three [of None bracedText flaky 0] nk
  have c0: "calls (fetchGeminiResponse None bracedText flaky 0) = 0"
    unfolding Let_def by blast
  from attempts_at_most_three [of "Some ''key''" bracedText flaky 0] k
  have "\<forall>k res. k < 3 \<and> ?a k = Inr res \<and> (\<forall>j<k. isl (?a j)) \<longrightarrow>
          outcome ?r = Inr res \<and> calls ?r = k + 1"
    unfolding Let_def by blast
  then have "1 < (3::nat) \<and> ?a 1 = Inr (''{}'', emptyObject) \<and> (\<forall>j<1. isl (?a j)) \<longrightarrow>
          outcome ?r = Inr (''{}'', emptyObject) \<and> calls ?r = 1 + 1"
    by blast
  moreover have "\<forall>j<1. isl (?a j)" using a0 by simp
  ultimately have "outcome ?r = Inr (''{}'', emptyObject) \<and> calls ?r = 2"
    using a1 by simp
  with k nk a0 a1 c0 show ?thesis by simp
qed

subsection \<open>Retries and delays\<close>

text \<open>
  Claim C4, as stated, fails: a server error that is not a rate-limit signal does not
  propagate after its first occurrence. The wrapper calls again, and returns the answer
  of the second call.
\<close>

theorem other_error_is_retried:
  "\<not> isRateLimit serverError \<and> flaky 0 = Throws serverError \<and>
   outcome (fetchGeminiResponse (Some ''key'') bracedText flaky 0) = Inr (''{}'', emptyObject) \<and>
   calls (fetchGeminiResponse (Some ''key'') bracedText flaky 0) = 2"
  by (simp add: run_flaky flaky_def isRateLimit_def serverError_def)

text \<open>
  Claim C4, amended. With an API key, every failed attempt before the third is followed
  by another call, whatever the error; an error propagates only from the third attempt.
  The delays are those of the rate-limit errors alone: attempt number times 3000
  milliseconds after each failed attempt, before the third, that was rate-limited, and
  nothing after the others.
\<close>

theorem retry_backoff:
  assumes "hasApiKey apiKey"
  shows "let r = fetchGeminiResponse apiKey parse ai n;
             a = (\<lambda>j. attempt parse (ai (n + j)))
         in waits r =
              map (\<lambda>j. 3000 * (j + 1)) (filter (\<lambda>j. rateLimited (a j)) [0..<calls r - 1]) \<and>
            (\<forall>j<2. (\<forall>i\<le>j. isl (a i)) \<longrightarrow> j + 1 < calls r) \<and>
            (\<forall>e. outcome r = Inl e \<longrightarrow> calls r = 3)"
proof -
  have le1: "(\<forall>i\<le>Suc 0. P i) \<longleftrightarrow> P 0 \<and> P (Suc 0)" for P :: "nat \<Rightarrow> bool"
    by (auto simp: le_Suc_eq)
  have u1: "[0..<Suc 0] = [0]" and u2: "[0..<2] = [0, Suc 0]"
    by (simp_all add: upt_rec)
  show ?thesis
    using assms
    apply (simp add: fetchGeminiResponse_def Let_def fetchLoop_unfold all_less_2 le1)
    apply (cases "attempt parse (ai n)"; cases "attempt parse (ai (n + 1))";
        cases "attempt parse (ai (n + 2))")
           apply (auto simp: Let_def fetchLoop_unfold rateLimited_def u1 u2)
    done
qed

theorem retry_backoff_witness:
  "hasApiKey (Some ''key'') \<and>
   rateLimited (attempt bracedText (busy 0)) \<and> rateLimited (attempt bracedText (busy 1)) \<and>
   calls (fetchGeminiResponse (Some ''key'') bracedText busy 0) = 3 \<and>
   waits (fetchGeminiResponse (Some ''key'') bracedText busy 0) = [3000, 6000]"
proof -
  have k: "hasApiKey (Some ''key'')" by (simp add: hasApiKey_def)
  show ?thesis
    using retry_backoff [OF k, of bracedText busy 0] k
    by (simp add: run_busy rateLimited_def busy_def attempt_def isRateLimit_def
        tooManyRequests_def)
qed

subsection \<open>Fenced answers\<close>



subsection \<open>The two phases of the analysis\<close>

lemma mergeResult_field:
  "k \<noteq> ''sources'' \<Longrightarrow>
   mergeResult spread cur d s k =
     (case spread d k of Some v \<Rightarrow> Some (Json v) | None \<Rightarrow> cur k)"
  by (simp add: mergeResult_def map_add_def split: option.splits)

lemma analysis_cases:
  "generatePortfolioAnalysis apiKey parse spread ai =
     (let p1 = fetchGeminiResponse apiKey parse ai 0;
          p2 = fetchGeminiResponse apiKey parse ai (calls p1)
      in case (outcome p1, outcome p2) of
           (Inl e1, Inl e2) \<Rightarrow>
             \<lparr>updates = [], currentResult = Map.empty, phase1 = p1, phase2 = p2\<rparr>
         | (Inr (d1, r1), Inl e2) \<Rightarrow>
             let m1 = mergeResult spread Map.empty d1 (extractSources r1 [])
             in \<lparr>updates = [m1], currentResult = m1, phase1 = p1, phase2 = p2\<rparr>
         | (Inl e1, Inr (d2, r2)) \<Rightarrow>
             let m2 = mergeResult spread Map.empty d2 (uniqueSources (extractSources r2 []))
             in \<lparr>updates = [m2], currentResult = m2, phase1 = p1, phase2 = p2\<rparr>
         | (Inr (d1, r1), Inr (d2, r2)) \<Rightarrow>
             let m1 = mergeResult spread Map.empty d1 (extractSources r1 []);
                 m2 = mergeResult spread m1 d2
                        (uniqueSources (extractSources r2 (extractSources r1 [])))
             in \<lparr>updates = [m1, m2], currentResult = m2, phase1 = p1, phase2 = p2\<rparr>)"
  by (simp add: generatePortfolioAnalysis_def Let_def split: sum.splits prod.splits)

text \<open>
  Claim C6. The analysis runs the wrapper twice, Phase 2 from the call that follows the
  last call of Phase 1, whatever the outcome of Phase 1. Each phase that succeeds passes
  one partial result to the update callback, in order, and a phase that fails passes
  none: a failure of one phase neither stops the other nor withholds its report. The
  first report of a successful Phase 1 holds its fields; the last report is the final
  result; the final result keeps every field of a successful Phase 1 (with the value of
  Phase 2 where Phase 2 succeeds and has the field too) and every field of a successful
  Phase 2.
\<close>

theorem analysis_phases:
  "let r = generatePortfolioAnalysis apiKey parse spread ai;
       p1 = fetchGeminiResponse apiKey parse ai 0;
       p2 = fetchGeminiResponse apiKey parse ai (calls p1)
   in phase1 r = p1 \<and> phase2 r = p2 \<and>
      length (updates r) =
        (if isl (outcome p1) then 0 else 1) + (if isl (outcome p2) then 0 else 1) \<and>
      (updates r \<noteq> [] \<longrightarrow> last (updates r) = currentResult r) \<and>
      (updates r = [] \<longrightarrow> currentResult r = Map.empty) \<and>
      (\<forall>d1 r1. outcome p1 = Inr (d1, r1) \<longrightarrow>
         hd (updates r) = mergeResult spread Map.empty d1 (extractSources r1 []) \<and>
         (\<forall>k v. spread d1 k = Some v \<and> k \<noteq> ''sources'' \<longrightarrow>
            hd (updates r) k = Some (Json v) \<and>
            k \<in> dom (currentResult r) \<and>
            (isl (outcome p2) \<longrightarrow> currentResult r k = Some (Json v)) \<and>
            (\<forall>d2 r2. outcome p2 = Inr (d2, r2) \<and> spread d2 k = None \<longrightarrow>
               currentResult r k = Some (Json v)))) \<and>
      (\<forall>d2 r2. outcome p2 = Inr (d2, r2) \<longrightarrow>
         (\<forall>k v. spread d2 k = Some v \<and> k \<noteq> ''sources'' \<longrightarrow>
            currentResult r k = Some (Json v)))"
  unfolding analysis_cases
  by (cases "outcome (fetchGeminiResponse apiKey parse ai 0)";
      cases "outcome (fetchGeminiResponse apiKey parse ai
                (calls (fetchGeminiResponse apiKey parse ai 0)))")
    (auto simp: Let_def mergeResult_field split: option.splits)

lemma run_failsLater_phase1:
  "fetchGeminiResponse (Some ''key'') bracedText failsLater 0 =
     \<lparr>outcome = Inr (''{x}'', fencedAnswer), calls = 1, waits = []\<rparr>"
  by (simp add: sample_run_defs failsLater_def)

lemma run_failsLater_phase2:
  "fetchGeminiResponse (Some ''key'') bracedText failsLater (Suc 0) =
     \<lparr>outcome = Inl serverError, calls = 3, waits = []\<rparr>"
  by (simp add: sample_run_defs failsLater_def)

lemma run_failsFirst_phase1:
  "fetchGeminiResponse (Some ''key'') bracedText failsFirst 0 =
     \<lparr>outcome = Inl serverError, calls = 3, waits = []\<rparr>"
  by (simp add: sample_run_defs failsFirst_def)

lemma run_failsFirst_phase2:
  "fetchGeminiResponse (Some ''key'') bracedText failsFirst 3 =
     \<lparr>outcome = Inr (''{x}'', fencedAnswer), calls = 1, waits = []\<rparr>"
  by (simp add: sample_run_defs failsFirst_def)

theorem analysis_phases_witness:
  "outcome (fetchGeminiResponse (Some ''key'') bracedText failsLater 0) =
     Inr (''{x}'', fencedAnswer) \<and>
   isl (outcome (fetchGeminiResponse (Some ''key'') bracedText failsLater 1)) \<and>
   summaryOnly ''{x}'' ''summary'' = Some ''{x}'' \<and>
   length (updates (generatePortfolioAnalysis (Some ''key'') bracedText summaryOnly failsLater)) = 1 \<and>
   currentResult (generatePortfolioAnalysis (Some ''key'') bracedText summaryOnly failsLater)
     ''summary'' = Some (Json ''{x}'') \<and>
   isl (outcome (fetchGeminiResponse (Some ''key'') bracedText failsFirst 0)) \<and>
   outcome (fetchGeminiResponse (Some ''key'') bracedText failsFirst 3) =
     Inr (''{x}'', fencedAnswer) \<and>
   length (updates (generatePortfolioAnalysis (Some ''key'') bracedText summaryOnly failsFirst)) = 1 \<and>
   currentResult (generatePortfolioAnalysis (Some ''key'') bracedText summaryOnly failsFirst)
     ''summary'' = Some (Json ''{x}'')"
proof -
  let ?A = "generatePortfolioAnalysis (Some ''key'') bracedText summaryOnly failsLater"
  let ?B = "generatePortfolioAnalysis (Some ''key'') bracedText summaryOnly failsFirst"
  have s: "summaryOnly ''{x}'' ''summary'' = Some ''{x}''"
    by (simp add: summaryOnly_def)
  from analysis_phases [of "Some ''key''" bracedText summaryOnly failsLater]
  have A: "length (updates ?A) = 1 \<and>
           (\<forall>k v. summaryOnly ''{x}'' k = Some v \<and> k \<noteq> ''sources'' \<longrightarrow>
              currentResult ?A k = Some (Json v))"
    unfolding Let_def run_failsLater_phase1 by (simp add: run_failsLater_phase2)
  from analysis_phases [of "Some ''key''" bracedText summaryOnly failsFirst]
  have B: "length (updates ?B) = 1 \<and>
           (\<forall>k v. summaryOnly ''{x}'' k = Some v \<and> k \<noteq> ''sources'' \<longrightarrow>
              currentResult ?B k = Some (Json v))"
    unfolding Let_def run_failsFirst_phase1 by (simp add: run_failsFirst_phase2)
  from A s have A': "currentResult ?A ''summary'' = Some (Json ''{x}'')" by auto
  from B s have B': "currentResult ?B ''summary'' = Some (Json ''{x}'')" by auto
  show ?thesis
    using A A' B B' s
    by (simp add: run_failsLater_phase1 run_failsLater_phase2 run_failsFirst_phase1
        run_failsFirst_phase2)
qed

section \<open>Properties of the price refresh\<close>

text \<open>
  What the guard of the refresh handler does: when a refresh settles while the portfolio
  reference is empty, the portfolio is left as it is and only the refreshing state ends.
\<close>

lemma refresh_discarded_while_empty:
  "portfolioRef st = [] \<Longrightarrow>
   portfolio (refreshComplete settled st) = portfolio st \<and>
   \<not> isRefreshing (refreshComplete settled st)"
  by (auto simp: refreshComplete_def split: sum.splits)

text \<open>
  Claim C9 fails on the code. A refresh of the portfolio \<open>[HBL]\<close> is in flight; the
  journal is erased and that render commits; a stock OGDC is added and that render
  commits; then the request settles with the portfolio it was sent. The portfolio was
  cleared while the request was in flight, yet the data of the request is applied: the
  erased position is back and the position added since is lost. The guard only looks
  at whether the portfolio is empty at the moment the request settles.
\<close>

theorem stale_refresh_applied:
  "snd (refreshRequest ledger) = Some [hbl] \<and>
   portfolio (commitEffects (handleReset True (fst (refreshRequest ledger)))) = [] \<and>
   map symbol (portfolio (commitEffects (handleAddStock ''3'' ''2024-01-05'' ogdc
     (commitEffects (handleReset True (fst (refreshRequest ledger))))))) = [''OGDC''] \<and>
   portfolio (refreshComplete (Inr [hbl])
     (commitEffects (handleAddStock ''3'' ''2024-01-05'' ogdc
       (commitEffects (handleReset True (fst (refreshRequest ledger))))))) = [hbl]"
  by (simp add: ledger_def refreshRequest_def commitEffects_def handleReset_def
      handleAddStock_def refreshComplete_def Let_def ogdc_def)

section \<open>Properties of the spreadsheet import\<close>

subsection \<open>Rows that are skipped\<close>









subsection \<open>Rows that are aggregated\<close>

















end
